theory Spec2Isabelle
  imports Complex_Main
begin

section \<open>Values exchanged with the Smart Oil Gauge service\<close>

text \<open>
  Python floats are IEEE binary64 values. \<open>Fin m e\<close> is the finite double \<open>m * 2 ^ e\<close>; the
  operations below produce it in the IEEE normal form (\<open>2 ^ 52 \<le> \<bar>m\<bar> < 2 ^ 53\<close>, or
  \<open>e = - 1074\<close> for a subnormal), zero being \<open>Fin 0 0\<close>. The two zeros are identified:
  Python compares them equal, and nothing here depends on the sign of a zero.
\<close>

datatype pyfloat = Fin int int | PInf | NInf | NaN

text \<open>
  What \<open>json.loads\<close> produces: \<open>None\<close>, \<open>bool\<close>, unbounded \<open>int\<close>, \<open>float\<close>, \<open>str\<close>,
  \<open>list\<close> and \<open>dict\<close>. A dict is the list of its items; \<open>d.get(k)\<close> is \<open>map_of d k\<close>.
\<close>

datatype json =
    JNull
  | JBool bool
  | JInt int
  | JFloat pyfloat
  | JStr string
  | JList "json list"
  | JDict "(string \<times> json) list"

text \<open>The exceptions that cross a function boundary somewhere in the integration.\<close>

datatype exn =
    AuthError
  | ApiError
  | ConfigEntryAuthFailed
  | UpdateFailed
  | ValueError
  | TypeError
  | OverflowError
  | ZeroDivisionError
  | OtherError

section \<open>String helpers\<close>

fun is_prefix :: "string \<Rightarrow> string \<Rightarrow> bool" where
  "is_prefix [] ys = True"
| "is_prefix (x # xs) [] = False"
| "is_prefix (x # xs) (y # ys) = (x = y \<and> is_prefix xs ys)"

text \<open>Python's \<open>needle in hay\<close> on strings.\<close>

fun str_in :: "string \<Rightarrow> string \<Rightarrow> bool" where
  "str_in needle [] = (needle = [])"
| "str_in needle (c # cs) = (is_prefix needle (c # cs) \<or> str_in needle cs)"

definition is_upper :: "char \<Rightarrow> bool" where
  "is_upper c = (65 \<le> (of_char c :: nat) \<and> (of_char c :: nat) \<le> 90)"

definition lower_char :: "char \<Rightarrow> char" where
  "lower_char c = (if is_upper c then char_of ((of_char c :: nat) + 32) else c)"

text \<open>\<open>s.lower()\<close> on the characters a \<open>string\<close> can hold.\<close>

definition lower :: "string \<Rightarrow> string" where
  "lower s = map lower_char s"

text \<open>
  What \<open>\s\<close> matches and what \<open>float\<close> strips, among the characters a \<open>string\<close> can hold:
  tab to carriage return, the four separators 28 to 31, space, NEL and the no-break space.
\<close>

definition is_space :: "char \<Rightarrow> bool" where
  "is_space c = (let n = (of_char c :: nat) in
     (9 \<le> n \<and> n \<le> 13) \<or> (28 \<le> n \<and> n \<le> 32) \<or> n = 133 \<or> n = 160)"

definition is_quote :: "char \<Rightarrow> bool" where
  "is_quote c = (c = CHR 0x22 \<or> c = CHR 0x27)"

section \<open>Python floats\<close>

text \<open>The number of binary digits of a natural number.\<close>

fun bitlen :: "nat \<Rightarrow> nat" where
  "bitlen n = (if n = 0 then 0 else 1 + bitlen (n div 2))"

declare bitlen.simps [simp del]

text \<open>For positive \<open>n\<close> and \<open>d\<close>, the \<open>e\<close> with \<open>2 ^ e \<le> n / d < 2 ^ (e + 1)\<close>.\<close>

definition floor_log2 :: "int \<Rightarrow> int \<Rightarrow> int" where
  "floor_log2 n d =
     (let k = int (bitlen (nat n)) - int (bitlen (nat d))
      in if d * 2 ^ nat k \<le> n * 2 ^ nat (- k) then k else k - 1)"

text \<open>The integer nearest to \<open>n / d\<close> for positive \<open>d\<close>, a tie going to the even one.\<close>

definition round_half_even :: "int \<Rightarrow> int \<Rightarrow> int" where
  "round_half_even n d =
     (let q = n div d; r = n mod d
      in if 2 * r < d then q else if d < 2 * r then q + 1 else if even q then q else q + 1)"

text \<open>
  The double nearest to \<open>n / d\<close> for positive \<open>d\<close> (round to nearest, ties to even): 53
  significant bits, the last of them worth \<open>2 ^ q\<close> with \<open>q\<close> no less than \<open>- 1074\<close>, and an
  infinity once the result passes the largest finite double.
\<close>

definition to_double :: "int \<Rightarrow> int \<Rightarrow> pyfloat" where
  "to_double n d =
     (if n = 0 then Fin 0 0
      else
        let e = floor_log2 \<bar>n\<bar> d;
            q = max (e - 52) (- 1074);
            m = round_half_even (\<bar>n\<bar> * 2 ^ nat (- q)) (d * 2 ^ nat q);
            m' = (if m = 2 ^ 53 then 2 ^ 52 else m);
            q' = (if m = 2 ^ 53 then q + 1 else q)
        in if m' = 0 then Fin 0 0
           else if 971 < q' then (if 0 < n then PInf else NInf)
           else Fin (if 0 < n then m' else - m') q')"

text \<open>\<open>x <= y\<close> on floats: false as soon as one side is a NaN.\<close>

fun fle :: "pyfloat \<Rightarrow> pyfloat \<Rightarrow> bool" where
  "fle NaN y = False"
| "fle x NaN = False"
| "fle NInf y = True"
| "fle x PInf = True"
| "fle PInf y = False"
| "fle x NInf = False"
| "fle (Fin m1 e1) (Fin m2 e2) = (m1 * 2 ^ nat (e1 - e2) \<le> m2 * 2 ^ nat (e2 - e1))"

text \<open>\<open>x * y\<close> on floats.\<close>

fun fmul :: "pyfloat \<Rightarrow> pyfloat \<Rightarrow> pyfloat" where
  "fmul NaN y = NaN"
| "fmul x NaN = NaN"
| "fmul (Fin m1 e1) (Fin m2 e2) =
     to_double (m1 * m2 * 2 ^ nat (e1 + e2)) (2 ^ nat (- (e1 + e2)))"
| "fmul (Fin m e) y = (if m = 0 then NaN else if (0 < m) = (y = PInf) then PInf else NInf)"
| "fmul x (Fin m e) = (if m = 0 then NaN else if (0 < m) = (x = PInf) then PInf else NInf)"
| "fmul x y = (if x = y then PInf else NInf)"

text \<open>\<open>x / y\<close> on floats: Python raises \<open>ZeroDivisionError\<close> for any \<open>x\<close> when \<open>y\<close> is zero.\<close>

fun fdiv :: "pyfloat \<Rightarrow> pyfloat \<Rightarrow> exn + pyfloat" where
  "fdiv x (Fin m2 e2) =
     (if m2 = 0 then Inl ZeroDivisionError
      else case x of
             NaN \<Rightarrow> Inr NaN
           | Fin m1 e1 \<Rightarrow>
               Inr (to_double (sgn m2 * m1 * 2 ^ nat (e1 - e2)) (\<bar>m2\<bar> * 2 ^ nat (e2 - e1)))
           | PInf \<Rightarrow> Inr (if 0 < m2 then PInf else NInf)
           | NInf \<Rightarrow> Inr (if 0 < m2 then NInf else PInf))"
| "fdiv NaN y = Inr NaN"
| "fdiv x NaN = Inr NaN"
| "fdiv (Fin m e) y = Inr (Fin 0 0)"
| "fdiv x y = Inr NaN"

text \<open>
  \<open>round(x, ndigits)\<close> for \<open>ndigits \<ge> 0\<close>: the exact value of \<open>x\<close> is rounded to that many
  decimal places, ties to even, and the resulting decimal is read back as a double; an
  infinity or a NaN rounds to itself.
\<close>

definition py_round :: "pyfloat \<Rightarrow> nat \<Rightarrow> pyfloat" where
  "py_round x ndigits =
     (case x of
        Fin m e \<Rightarrow>
          to_double (round_half_even (m * 10 ^ ndigits * 2 ^ nat e) (2 ^ nat (- e))) (10 ^ ndigits)
      | _ \<Rightarrow> x)"

subsection \<open>\<open>float(s)\<close> on a string\<close>

definition is_digit :: "char \<Rightarrow> bool" where
  "is_digit c = (48 \<le> (of_char c :: nat) \<and> (of_char c :: nat) \<le> 57)"

definition digits_val :: "string \<Rightarrow> int" where
  "digits_val ds = foldl (\<lambda>a c. 10 * a + (int (of_char c) - 48)) 0 ds"

definition strip :: "string \<Rightarrow> string" where
  "strip s = rev (dropWhile is_space (rev (dropWhile is_space s)))"

text \<open>An underscore is accepted only between two digits.\<close>

fun underscores_ok :: "char option \<Rightarrow> string \<Rightarrow> bool" where
  "underscores_ok prev [] = True"
| "underscores_ok prev (c # cs) =
     (if c = CHR ''_''
      then (case prev of None \<Rightarrow> False | Some p \<Rightarrow> is_digit p) \<and>
           (case cs of [] \<Rightarrow> False | d # _ \<Rightarrow> is_digit d) \<and> underscores_ok (Some c) cs
      else underscores_ok (Some c) cs)"

definition parse_sign :: "string \<Rightarrow> bool \<times> string" where
  "parse_sign s = (case s of
       [] \<Rightarrow> (False, [])
     | c # cs \<Rightarrow> if c = CHR ''-'' then (True, cs) else if c = CHR ''+'' then (False, cs)
                else (False, s))"

text \<open>
  An unsigned decimal literal that fills the whole string: digits with an optional point,
  at least one digit in all, and an optional exponent. The result \<open>(m, x)\<close> stands for
  \<open>m * 10 ^ x\<close>.
\<close>

definition parse_decimal :: "string \<Rightarrow> (int \<times> int) option" where
  "parse_decimal s =
     (let ip = takeWhile is_digit s;
          r1 = dropWhile is_digit s;
          has_point = (case r1 of [] \<Rightarrow> False | c # _ \<Rightarrow> c = CHR ''.'');
          fp = (if has_point then takeWhile is_digit (tl r1) else []);
          r2 = (if has_point then dropWhile is_digit (tl r1) else r1);
          m = digits_val (ip @ fp)
      in if ip = [] \<and> fp = [] then None
         else case r2 of
                [] \<Rightarrow> Some (m, - int (length fp))
              | c # cs \<Rightarrow>
                  if c = CHR ''e'' \<or> c = CHR ''E'' then
                    (let (neg, ds) = parse_sign cs
                     in if ds \<noteq> [] \<and> list_all is_digit ds
                        then Some (m, (if neg then - digits_val ds else digits_val ds)
                                      - int (length fp))
                        else None)
                  else None)"

text \<open>
  \<open>float(s)\<close>: surrounding whitespace is dropped, underscores between digits are ignored,
  and what remains is a signed \<open>inf\<close>, \<open>infinity\<close> or \<open>nan\<close> in any case, or a signed decimal
  literal, read as the nearest double (an infinity when out of range). \<open>None\<close> stands for
  \<open>ValueError\<close>.
\<close>

definition float_of_str :: "string \<Rightarrow> pyfloat option" where
  "float_of_str s0 =
     (let s = strip s0 in
      if \<not> underscores_ok None s then None
      else
        let (neg, body) = parse_sign (filter (\<lambda>c. c \<noteq> CHR ''_'') s) in
        if lower body = ''inf'' \<or> lower body = ''infinity'' then Some (if neg then NInf else PInf)
        else if lower body = ''nan'' then Some NaN
        else case parse_decimal body of
               None \<Rightarrow> None
             | Some (m, x) \<Rightarrow>
                 Some (to_double ((if neg then - m else m) * 10 ^ nat x) (10 ^ nat (- x))))"

text \<open>
  \<open>float(x)\<close> on a JSON value: \<open>TypeError\<close> for \<open>None\<close>, a list or a dict, \<open>ValueError\<close> for a
  string that is not a number, and \<open>OverflowError\<close> for an int beyond the range of a double.
\<close>

definition py_float :: "json \<Rightarrow> exn + pyfloat" where
  "py_float x = (case x of
       JNull \<Rightarrow> Inl TypeError
     | JBool b \<Rightarrow> Inr (to_double (if b then 1 else 0) 1)
     | JInt n \<Rightarrow> (case to_double n 1 of
                    PInf \<Rightarrow> Inl OverflowError
                  | NInf \<Rightarrow> Inl OverflowError
                  | f \<Rightarrow> Inr f)
     | JFloat f \<Rightarrow> Inr f
     | JStr s \<Rightarrow> (case float_of_str s of None \<Rightarrow> Inl ValueError | Some f \<Rightarrow> Inr f)
     | JList _ \<Rightarrow> Inl TypeError
     | JDict _ \<Rightarrow> Inl TypeError)"

section \<open>The nonce pattern of api.py\<close>

text \<open>
  \<open>_NONCE_RE\<close> is \<^verbatim>\<open>name=["']ccf_nonce["']\s+value=["']([^"']+)["']\<close>, compiled with
  \<open>re.I\<close>. Every repetition in it is followed by a character outside the repeated class, so
  the greedy match is the only one at a given start.
\<close>

text \<open>A literal of the pattern (given in lower case) at the head of the text, ignoring case.\<close>

fun match_ci :: "string \<Rightarrow> string \<Rightarrow> string option" where
  "match_ci [] ts = Some ts"
| "match_ci (p # ps) [] = None"
| "match_ci (p # ps) (t # ts) = (if lower_char t = p then match_ci ps ts else None)"

definition match_quote :: "string \<Rightarrow> string option" where
  "match_quote ts = (case ts of [] \<Rightarrow> None | c # cs \<Rightarrow> if is_quote c then Some cs else None)"

definition match_spaces :: "string \<Rightarrow> string option" where
  "match_spaces ts = (case ts of [] \<Rightarrow> None
     | c # cs \<Rightarrow> if is_space c then Some (dropWhile is_space cs) else None)"

definition match_group :: "string \<Rightarrow> string option" where
  "match_group ts =
     (let g = takeWhile (\<lambda>c. \<not> is_quote c) ts; rest = dropWhile (\<lambda>c. \<not> is_quote c) ts
      in if g = [] then None
         else case match_quote rest of None \<Rightarrow> None | Some _ \<Rightarrow> Some g)"

definition nonce_match_here :: "string \<Rightarrow> string option" where
  "nonce_match_here ts =
     Option.bind (match_ci ''name='' ts) (\<lambda>t1.
     Option.bind (match_quote t1) (\<lambda>t2.
     Option.bind (match_ci ''ccf_nonce'' t2) (\<lambda>t3.
     Option.bind (match_quote t3) (\<lambda>t4.
     Option.bind (match_spaces t4) (\<lambda>t5.
     Option.bind (match_ci ''value='' t5) (\<lambda>t6.
     Option.bind (match_quote t6) match_group))))))"

text \<open>\<open>_NONCE_RE.search(text)\<close> followed by \<open>match.group(1)\<close>: the leftmost match.\<close>

fun nonce_search :: "string \<Rightarrow> string option" where
  "nonce_search [] = None"
| "nonce_search (c # cs) =
     (case nonce_match_here (c # cs) of Some g \<Rightarrow> Some g | None \<Rightarrow> nonce_search cs)"

section \<open>The transport handed to the client\<close>

text \<open>
  What an \<open>aiohttp\<close> call can raise: \<open>asyncio.TimeoutError\<close>, an \<open>aiohttp.ClientError\<close>,
  or some other exception (a decoding error of \<open>resp.text()\<close>, say).
\<close>

datatype transport_exn = Timeout | ClientErr | OtherExn

datatype 'a outcome = Raises transport_exn | Returns 'a

text \<open>
  A response as the client reads it: \<open>resp.status\<close>, the Content-Type header if there is
  one, and what \<open>await resp.text()\<close> and \<open>await resp.json()\<close> give.
\<close>

record response =
  resp_status :: int
  resp_content_type :: "string option"
  resp_text :: "string outcome"
  resp_json :: "json outcome"

datatype request =
    Get string
  | PostForm string "(string \<times> string) list"
  | PostBody string string

text \<open>
  The session and the remote service together: the service answers each request as a
  function of everything sent so far (cookies included), and \<open>sent\<close> records the requests
  in the order they were made.
\<close>

record world =
  server :: "request list \<Rightarrow> response outcome"
  sent :: "request list"

definition send :: "request \<Rightarrow> world \<Rightarrow> response outcome \<times> world" where
  "send r w = (server w (sent w @ [r]), w\<lparr>sent := sent w @ [r]\<rparr>)"

section \<open>api.py\<close>

definition LOGIN_URL :: string where
  "LOGIN_URL = ''https://app.smartoilgauge.com/login.php''"

definition AJAX_URL :: string where
  "AJAX_URL = ''https://app.smartoilgauge.com/ajax/main_ajax.php''"

definition USER_FIELD :: string where
  "USER_FIELD = ''username''"

definition PASS_FIELD :: string where
  "PASS_FIELD = ''user_pass''"

text \<open>
  The two \<open>except\<close> clauses every network call of the client is wrapped in:
  \<open>asyncio.TimeoutError\<close> and \<open>aiohttp.ClientError\<close> become \<open>ApiError\<close>; anything else is
  not caught there.
\<close>

definition reraise :: "transport_exn \<Rightarrow> exn" where
  "reraise x = (case x of Timeout \<Rightarrow> ApiError | ClientErr \<Rightarrow> ApiError | OtherExn \<Rightarrow> OtherError)"

definition fetch_nonce :: "world \<Rightarrow> (exn + string option) \<times> world" where
  "fetch_nonce w =
     (case send (Get LOGIN_URL) w of
        (Raises x, w') \<Rightarrow> (Inl (reraise x), w')
      | (Returns resp, w') \<Rightarrow>
          (case resp_text resp of
             Raises x \<Rightarrow> (Inl (reraise x), w')
           | Returns text \<Rightarrow> (Inr (nonce_search text), w')))"

definition login_data :: "string \<Rightarrow> string \<Rightarrow> string option \<Rightarrow> (string \<times> string) list" where
  "login_data username password nonce =
     [(USER_FIELD, username), (PASS_FIELD, password)] @
     (case nonce of None \<Rightarrow> [] | Some n \<Rightarrow> if n \<noteq> [] then [(''ccf_nonce'', n)] else [])"

definition login :: "string \<Rightarrow> string \<Rightarrow> world \<Rightarrow> (exn + unit) \<times> world" where
  \<open>login username password w =
     (case fetch_nonce w of
        (Inl e, w1) \<Rightarrow> (Inl e, w1)
      | (Inr nonce, w1) \<Rightarrow>
          (case send (PostForm LOGIN_URL (login_data username password nonce)) w1 of
             (Raises x, w2) \<Rightarrow> (Inl (reraise x), w2)
           | (Returns resp, w2) \<Rightarrow>
               if resp_status resp \<ge> 500 then (Inl ApiError, w2)
               else if resp_status resp = 401 \<or> resp_status resp = 403 then (Inl AuthError, w2)
               else (case resp_text resp of
                  Raises x \<Rightarrow> (Inl (reraise x), w2)
                | Returns text \<Rightarrow>
                    if str_in ''name="user_pass"'' text \<or> str_in ''user_pass'' text
                    then (Inl AuthError, w2)
                    else if str_in ''Login'' text \<and> str_in ''Smart Oil Gauge'' text
                    then (Inl AuthError, w2)
                    else (Inr (), w2))))\<close>

text \<open>The one request \<open>get_tanks_list\<close> makes.\<close>

definition ajax_request :: request where
  "ajax_request = PostBody AJAX_URL ''action=get_tanks_list&tank_id=0''"

text \<open>\<open>x == k\<close> for a JSON value \<open>x\<close> and an int \<open>k\<close>, as \<open>x in (401, 403)\<close> compares.\<close>

definition eq_int :: "json \<Rightarrow> int \<Rightarrow> bool" where
  "eq_int x k = (case x of
       JInt n \<Rightarrow> n = k
     | JBool b \<Rightarrow> (if b then 1 else 0) = k
     | JFloat (Fin m e) \<Rightarrow> m * 2 ^ nat e = k * 2 ^ nat (- e)
     | _ \<Rightarrow> False)"

text \<open>
  \<open>str(result).lower() != "ok"\<close> for a \<open>result\<close> that is not \<open>None\<close>: \<open>str\<close> of a number, a
  bool, a list or a dict never reads \<open>ok\<close> in any case, so only a string can pass.
\<close>

definition result_not_ok :: "json \<Rightarrow> bool" where
  "result_not_ok r = (case r of JStr s \<Rightarrow> lower s \<noteq> ''ok'' | _ \<Rightarrow> True)"

text \<open>The part of \<open>get_tanks_list\<close> after the \<open>try\<close> block, on the parsed \<open>data\<close>.\<close>

definition check_data :: "json \<Rightarrow> exn + json" where
  "check_data data =
     (case data of
        JDict d \<Rightarrow>
          (case map_of d ''Status'' of
             Some st \<Rightarrow>
               if eq_int st 401 \<or> eq_int st 403 then Inl AuthError
               else (case map_of d ''result'' of
                       None \<Rightarrow> Inr data
                     | Some JNull \<Rightarrow> Inr data
                     | Some r \<Rightarrow> if result_not_ok r then Inl ApiError else Inr data)
           | None \<Rightarrow>
               (case map_of d ''result'' of
                  None \<Rightarrow> Inr data
                | Some JNull \<Rightarrow> Inr data
                | Some r \<Rightarrow> if result_not_ok r then Inl ApiError else Inr data))
      | _ \<Rightarrow> Inr data)"

definition get_tanks_list :: "world \<Rightarrow> (exn + json) \<times> world" where
  "get_tanks_list w =
     (case send ajax_request w of
        (Raises x, w') \<Rightarrow> (Inl (reraise x), w')
      | (Returns resp, w') \<Rightarrow>
          if resp_status resp = 401 \<or> resp_status resp = 403 then (Inl AuthError, w')
          else if resp_status resp \<ge> 400 then (Inl ApiError, w')
          else
            (let ctype = (case resp_content_type resp of None \<Rightarrow> [] | Some c \<Rightarrow> c) in
             case resp_text resp of
               Raises x \<Rightarrow> (Inl (reraise x), w')
             | Returns text \<Rightarrow>
                 if \<not> str_in ''application/json'' ctype then
                   (if str_in ''ccf_nonce'' text \<or> str_in ''user_pass'' text \<or> str_in ''Login'' text
                    then (Inl AuthError, w')
                    else (Inl ApiError, w'))
                 else
                   (case resp_json resp of
                      Raises x \<Rightarrow> (Inl ApiError, w')
                    | Returns data \<Rightarrow> (check_data data, w'))))"

section \<open>The coordinator of __init__.py\<close>

record coordinator =
  username :: string
  password :: string
  data :: "json option"
  last_exception :: "exn option"

text \<open>The handlers of the inner \<open>try\<close>, which wraps both the login and the retried fetch.\<close>

definition relogin_handler :: "exn \<Rightarrow> exn" where
  "relogin_handler e = (if e = AuthError then ConfigEntryAuthFailed else UpdateFailed)"

definition async_update_data :: "coordinator \<Rightarrow> world \<Rightarrow> (exn + json) \<times> world" where
  "async_update_data self w =
     (case get_tanks_list w of
        (Inr d, w1) \<Rightarrow> (Inr d, w1)
      | (Inl e, w1) \<Rightarrow>
          if e = AuthError then
            (case login (username self) (password self) w1 of
               (Inl e2, w2) \<Rightarrow> (Inl (relogin_handler e2), w2)
             | (Inr u, w2) \<Rightarrow>
                 (case get_tanks_list w2 of
                    (Inr d, w3) \<Rightarrow> (Inr d, w3)
                  | (Inl e3, w3) \<Rightarrow> (Inl (relogin_handler e3), w3)))
          else (Inl UpdateFailed, w1))"

text \<open>
  Modelled from the spec: the refresh of the host platform's \<open>DataUpdateCoordinator\<close>, the
  base class, which is not among the sources. A successful update replaces the cached
  snapshot wholesale; a failed one is reported and leaves the previous snapshot intact.
\<close>

definition refresh :: "coordinator \<Rightarrow> world \<Rightarrow> coordinator \<times> world" where
  "refresh self w =
     (case async_update_data self w of
        (Inr d, w') \<Rightarrow> (self\<lparr>data := Some d, last_exception := None\<rparr>, w')
      | (Inl e, w') \<Rightarrow> (self\<lparr>last_exception := Some e\<rparr>, w'))"

section \<open>entity.py, sensor.py and binary_sensor.py\<close>

text \<open>\<open>_safe_float\<close>: the \<open>except\<close> clause catches \<open>ValueError\<close> and \<open>TypeError\<close> only.\<close>

definition safe_float :: "json \<Rightarrow> exn + pyfloat option" where
  "safe_float x = (case py_float x of
       Inr f \<Rightarrow> Inr (Some f)
     | Inl e \<Rightarrow> if e = ValueError \<or> e = TypeError then Inr None else Inl e)"

text \<open>
  \<open>_tanks_from\<close>, on the coordinator's data (\<open>cdata\<close> here): \<open>None\<close> before the first successful refresh
  (or when the service answered \<open>null\<close>), else the snapshot.
\<close>

definition tanks_from :: "json option \<Rightarrow> json list" where
  "tanks_from cdata = (case cdata of
       None \<Rightarrow> []
     | Some JNull \<Rightarrow> []
     | Some (JDict d) \<Rightarrow> (case map_of d ''tanks'' of Some (JList tanks) \<Rightarrow> tanks | _ \<Rightarrow> [])
     | Some _ \<Rightarrow> [])"

text \<open>\<open>AccountSensor.native_value\<close>.\<close>

definition AccountSensor_native_value :: "json option \<Rightarrow> nat" where
  "AccountSensor_native_value cdata = length (tanks_from cdata)"

text \<open>\<open>t.get(key)\<close> on a tank record: \<open>None\<close> when the key is missing.\<close>

definition dict_get :: "(string \<times> json) list \<Rightarrow> string \<Rightarrow> json" where
  "dict_get t key = (case map_of t key of None \<Rightarrow> JNull | Some v \<Rightarrow> v)"

text \<open>\<open>x or 0.0\<close> for an optional float: \<open>None\<close> and zero are falsy, a NaN is not.\<close>

definition or_zero :: "pyfloat option \<Rightarrow> pyfloat" where
  "or_zero x = (case x of
       None \<Rightarrow> Fin 0 0
     | Some f \<Rightarrow> (case f of Fin m e \<Rightarrow> if m = 0 then Fin 0 0 else f | _ \<Rightarrow> f))"

text \<open>
  \<open>PercentFullSensor.native_value\<close>, as a function of what \<open>self._tank()\<close> returned: \<open>None\<close>
  or the record of the tank. The outer \<open>option\<close> of the result is Python's \<open>None\<close>.
\<close>

definition PercentFullSensor_native_value ::
    "(string \<times> json) list option \<Rightarrow> exn + pyfloat option" where
  "PercentFullSensor_native_value tank =
     (case tank of
        None \<Rightarrow> Inr None
      | Some t \<Rightarrow>
          if t = [] then Inr None
          else case safe_float (dict_get t ''sensor_gallons'') of
            Inl e \<Rightarrow> Inl e
          | Inr g \<Rightarrow>
              (case safe_float (dict_get t ''nominal'') of
                 Inl e \<Rightarrow> Inl e
               | Inr c \<Rightarrow>
                   (let gallons = or_zero g; capacity = or_zero c
                    in if fle capacity (Fin 0 0) then Inr (Some (Fin 0 0))
                       else case fdiv gallons capacity of
                              Inl e \<Rightarrow> Inl e
                            | Inr ratio \<Rightarrow>
                                Inr (Some (py_round (fmul ratio (to_double 100 1)) 2)))))"

text \<open>\<open>LowOilSensor.is_on\<close>, as a function of what \<open>self._tank()\<close> returned.\<close>

definition LowOilSensor_is_on :: "(string \<times> json) list option \<Rightarrow> exn + bool option" where
  "LowOilSensor_is_on tank =
     (case tank of
        None \<Rightarrow> Inr None
      | Some t \<Rightarrow>
          if t = [] then Inr None
          else case safe_float (dict_get t ''sensor_gallons'') of
            Inl e \<Rightarrow> Inl e
          | Inr gallons \<Rightarrow>
              (case safe_float (dict_get t ''low_level'') of
                 Inl e \<Rightarrow> Inl e
               | Inr low_fraction \<Rightarrow>
                   (case safe_float (dict_get t ''nominal'') of
                      Inl e \<Rightarrow> Inl e
                    | Inr capacity \<Rightarrow>
                        (case (gallons, capacity, low_fraction) of
                           (Some g, Some c, Some l) \<Rightarrow> Inr (Some (fle g (fmul c l)))
                         | _ \<Rightarrow> Inr None))))"

section \<open>Scripted services\<close>

text \<open>
  Concrete services for the worked scenarios: the n-th request receives the n-th scripted
  reply, and the connection fails once the script is exhausted.
\<close>

definition scripted :: "response outcome list \<Rightarrow> request list \<Rightarrow> response outcome" where
  "scripted rs reqs =
     (if 0 < length reqs \<and> length reqs \<le> length rs then rs ! (length reqs - 1)
      else Raises ClientErr)"

definition script_world :: "response outcome list \<Rightarrow> world" where
  "script_world rs = \<lparr>server = scripted rs, sent = []\<rparr>"

definition html_page :: "int \<Rightarrow> string \<Rightarrow> response" where
  "html_page st body = \<lparr>resp_status = st, resp_content_type = Some ''text/html'',
     resp_text = Returns body, resp_json = Raises ClientErr\<rparr>"

definition json_page :: "int \<Rightarrow> string \<Rightarrow> json \<Rightarrow> response" where
  "json_page st body v = \<lparr>resp_status = st, resp_content_type = Some ''application/json'',
     resp_text = Returns body, resp_json = Returns v\<rparr>"

definition login_form :: response where
  \<open>login_form = html_page 200 ''<input name="ccf_nonce" value="abc123"><input name="user_pass">''\<close>

definition welcome_page :: response where
  "welcome_page = html_page 200 ''Welcome''"

definition unauthorized_json :: response where
  \<open>unauthorized_json = json_page 200 ''{"Status":401}'' (JDict [(''Status'', JInt 401)])\<close>

definition sample_snapshot :: json where
  "sample_snapshot = JDict [(''tanks'', JList [JDict
     [(''tank_id'', JInt 1), (''sensor_gallons'', JStr ''150.5''), (''nominal'', JStr ''300'')]])]"

definition tanks_json :: response where
  \<open>tanks_json = json_page 200
     ''{"tanks":[{"tank_id":1,"sensor_gallons":"150.5","nominal":"300"}]}'' sample_snapshot\<close>

definition sample_coordinator :: coordinator where
  "sample_coordinator = \<lparr>username = ''user'', password = ''secret'',
     data = Some sample_snapshot, last_exception = None\<rparr>"

(*DEFS_END*)

section \<open>Substrings\<close>

lemma is_prefix_iff: "is_prefix xs ys \<longleftrightarrow> (\<exists>ss. ys = xs @ ss)"
  by (induction xs ys rule: is_prefix.induct) auto

lemma str_in_iff: "str_in n h \<longleftrightarrow> (\<exists>ps ss. h = ps @ n @ ss)"
proof (induction h)
  case Nil
  then show ?case by auto
next
  case (Cons c cs)
  show ?case
  proof
    assume "str_in n (c # cs)"
    then consider "is_prefix n (c # cs)" | "str_in n cs" by auto
    then show "\<exists>ps ss. c # cs = ps @ n @ ss"
    proof cases
      case 1
      then obtain ss where "c # cs = n @ ss" by (auto simp: is_prefix_iff)
      then have "c # cs = [] @ n @ ss" by simp
      then show ?thesis by blast
    next
      case 2
      then obtain ps ss where "cs = ps @ n @ ss" using Cons.IH by blast
      then have "c # cs = (c # ps) @ n @ ss" by simp
      then show ?thesis by blast
    qed
  next
    assume "\<exists>ps ss. c # cs = ps @ n @ ss"
    then obtain ps ss where eq: "c # cs = ps @ n @ ss" by blast
    show "str_in n (c # cs)"
    proof (cases ps)
      case Nil
      with eq have "is_prefix n (c # cs)" by (auto simp: is_prefix_iff)
      then show ?thesis by simp
    next
      case (Cons p ps')
      with eq have "cs = ps' @ n @ ss" by simp
      then have "str_in n cs" using Cons.IH by blast
      then show ?thesis by simp
    qed
  qed
qed

lemma str_in_part: "str_in (a @ n @ b) h \<Longrightarrow> str_in n h"
proof -
  assume "str_in (a @ n @ b) h"
  then obtain ps ss where "h = ps @ (a @ n @ b) @ ss" by (auto simp: str_in_iff)
  then have "h = (ps @ a) @ n @ (b @ ss)" by simp
  then show ?thesis unfolding str_in_iff by blast
qed

lemma user_pass_field: \<open>str_in ''name="user_pass"'' text \<Longrightarrow> str_in ''user_pass'' text\<close>
  using str_in_part [of \<open>''name="''\<close> "''user_pass''" \<open>''"''\<close> "text"] by simp

text \<open>
  C6. Once the nonce page has been fetched and the credentials posted, \<open>login\<close> classifies
  the POST response: a status of 500 or more raises \<open>ApiError\<close>; 401 or 403 raises
  \<open>AuthError\<close>; otherwise the body is read, and \<open>AuthError\<close> is raised exactly when it
  contains \<open>user_pass\<close> (whatever the status, 200 included) or contains both \<open>Login\<close> and
  \<open>Smart Oil Gauge\<close>; any other body makes \<open>login\<close> return normally.
\<close>

theorem login_classification:
  assumes "fetch_nonce w = (Inr nonce, w1)"
    and "send (PostForm LOGIN_URL (login_data u p nonce)) w1 = (Returns resp, w2)"
  shows "(resp_status resp \<ge> 500 \<longrightarrow> login u p w = (Inl ApiError, w2)) \<and>
         (resp_status resp = 401 \<or> resp_status resp = 403 \<longrightarrow> login u p w = (Inl AuthError, w2)) \<and>
         (resp_status resp < 500 \<and> resp_status resp \<noteq> 401 \<and> resp_status resp \<noteq> 403 \<and>
          resp_text resp = Returns text \<longrightarrow>
            login u p w =
              (if str_in ''user_pass'' text \<or> (str_in ''Login'' text \<and> str_in ''Smart Oil Gauge'' text)
               then (Inl AuthError, w2) else (Inr (), w2)))"
  using assms user_pass_field [of "text"] by (auto simp: login_def)

lemma get_tanks_list_sent: "snd (get_tanks_list w) = w\<lparr>sent := sent w @ [ajax_request]\<rparr>"
  by (simp add: get_tanks_list_def send_def Let_def split: outcome.splits)

lemma fetch_nonce_sent: "snd (fetch_nonce w) = w\<lparr>sent := sent w @ [Get LOGIN_URL]\<rparr>"
  by (simp add: fetch_nonce_def send_def split: outcome.splits)

lemma login_ok_sent:
  assumes "login u p w = (Inr x, w')"
  shows "\<exists>nonce. w' = w\<lparr>sent := sent w @ [Get LOGIN_URL, PostForm LOGIN_URL (login_data u p nonce)]\<rparr>"
proof -
  obtain r w1 where fn: "fetch_nonce w = (r, w1)" by (cases "fetch_nonce w")
  from fetch_nonce_sent [of w] fn have w1: "w1 = w\<lparr>sent := sent w @ [Get LOGIN_URL]\<rparr>" by simp
  from assms fn obtain nonce where r: "r = Inr nonce"
    by (cases r) (auto simp: login_def)
  from assms fn r have "w' = snd (send (PostForm LOGIN_URL (login_data u p nonce)) w1)"
    by (auto simp: login_def split: prod.splits outcome.splits if_splits)
  with w1 show ?thesis by (auto simp: send_def)
qed

text \<open>
  C2, as the code has it. When the response of \<open>get_tanks_list\<close> passes the status checks
  and its content type is not JSON, the body raises \<open>AuthError\<close> exactly when it contains
  one of the three markers \<open>ccf_nonce\<close>, \<open>user_pass\<close> or \<open>Login\<close>, each sufficient alone, and
  \<open>ApiError\<close> otherwise. The markers are not those of \<open>login\<close>: the product name plays no
  part here.
\<close>

theorem get_tanks_list_non_json:
  assumes "send ajax_request w = (Returns resp, w')"
    and "resp_status resp < 400"
    and "\<not> str_in ''application/json'' (case resp_content_type resp of None \<Rightarrow> [] | Some c \<Rightarrow> c)"
    and "resp_text resp = Returns body"
  shows "get_tanks_list w =
           (if str_in ''ccf_nonce'' body \<or> str_in ''user_pass'' body \<or> str_in ''Login'' body
            then Inl AuthError else Inl ApiError, w')"
  using assms by (auto simp: get_tanks_list_def Let_def)

text \<open>
  C5. When the parsed body of the response is a mapping whose \<open>Status\<close> entry equals 401 or
  403, \<open>get_tanks_list\<close> raises \<open>AuthError\<close> as soon as the response reaches the parser
  (status below 400, HTTP 200 included, JSON content type, readable body), and whatever the
  HTTP status such a response is never returned as a snapshot.
\<close>

theorem status_field_unauthorized:
  assumes "send ajax_request w = (Returns resp, w')"
    and "resp_json resp = Returns (JDict d)"
    and "map_of d ''Status'' = Some st"
    and "eq_int st 401 \<or> eq_int st 403"
  shows "(resp_status resp < 400 \<and>
          str_in ''application/json'' (case resp_content_type resp of None \<Rightarrow> [] | Some c \<Rightarrow> c) \<and>
          resp_text resp = Returns body \<longrightarrow> get_tanks_list w = (Inl AuthError, w')) \<and>
         (\<forall>v. fst (get_tanks_list w) \<noteq> Inr v)"
  using assms
  by (auto simp: get_tanks_list_def Let_def check_data_def split: outcome.splits)

lemmas world_eval = send_def scripted_def script_world_def html_page_def json_page_def

lemma check_data_Inr: "check_data x = Inr d \<Longrightarrow> d = x"
  by (auto simp: check_data_def split: json.splits option.splits if_splits)

lemma get_tanks_list_Inr:
  assumes "get_tanks_list w = (Inr d, w')"
  shows "\<exists>resp. fst (send ajax_request w) = Returns resp \<and> resp_json resp = Returns d"
  using assms
  by (auto simp: get_tanks_list_def Let_def split: prod.splits outcome.splits if_splits
      dest: check_data_Inr)

lemma nonce_abc: \<open>nonce_search ''<input name="ccf_nonce" value="abc123"><input name="user_pass">'' = Some ''abc123''\<close>
  by (simp add: nonce_match_here_def match_quote_def match_spaces_def match_group_def
      is_quote_def is_space_def lower_char_def is_upper_def)

text \<open>
  C4. A timeout of any network operation of the client is raised as \<open>ApiError\<close>, never as
  \<open>AuthError\<close>: fetching the login page in \<open>_fetch_nonce\<close> (and so in \<open>login\<close>), posting the
  credentials in \<open>login\<close>, and posting the AJAX action in \<open>get_tanks_list\<close>; the timeout may
  strike the request itself or the reading of the body.
\<close>

theorem timeouts_are_ApiError:
  "(fst (send (Get LOGIN_URL) wa) = Raises Timeout \<or>
      (\<exists>resp. fst (send (Get LOGIN_URL) wa) = Returns resp \<and> resp_text resp = Raises Timeout)
    \<longrightarrow> fst (fetch_nonce wa) = Inl ApiError \<and> fst (login u p wa) = Inl ApiError) \<and>
   (fetch_nonce wb = (Inr nonce, wb1) \<and>
      (fst (send (PostForm LOGIN_URL (login_data u p nonce)) wb1) = Raises Timeout \<or>
       (\<exists>resp. fst (send (PostForm LOGIN_URL (login_data u p nonce)) wb1) = Returns resp \<and>
          resp_status resp < 500 \<and> resp_status resp \<noteq> 401 \<and> resp_status resp \<noteq> 403 \<and>
          resp_text resp = Raises Timeout))
    \<longrightarrow> fst (login u p wb) = Inl ApiError) \<and>
   (fst (send ajax_request wc) = Raises Timeout \<or>
      (\<exists>resp. fst (send ajax_request wc) = Returns resp \<and> resp_status resp < 400 \<and>
         (resp_text resp = Raises Timeout \<or>
          (\<exists>body. resp_text resp = Returns body \<and>
             str_in ''application/json''
               (case resp_content_type resp of None \<Rightarrow> [] | Some c \<Rightarrow> c) \<and>
             resp_json resp = Raises Timeout)))
    \<longrightarrow> fst (get_tanks_list wc) = Inl ApiError)"
proof (intro conjI impI)
  assume "fst (send (Get LOGIN_URL) wa) = Raises Timeout \<or>
      (\<exists>resp. fst (send (Get LOGIN_URL) wa) = Returns resp \<and> resp_text resp = Raises Timeout)"
  then show n: "fst (fetch_nonce wa) = Inl ApiError"
    by (auto simp: fetch_nonce_def reraise_def split: prod.splits)
  then show "fst (login u p wa) = Inl ApiError"
    by (auto simp: login_def split: prod.splits)
next
  assume "fetch_nonce wb = (Inr nonce, wb1) \<and>
      (fst (send (PostForm LOGIN_URL (login_data u p nonce)) wb1) = Raises Timeout \<or>
       (\<exists>resp. fst (send (PostForm LOGIN_URL (login_data u p nonce)) wb1) = Returns resp \<and>
          resp_status resp < 500 \<and> resp_status resp \<noteq> 401 \<and> resp_status resp \<noteq> 403 \<and>
          resp_text resp = Raises Timeout))"
  then show "fst (login u p wb) = Inl ApiError"
    by (auto simp: login_def reraise_def split: prod.splits)
next
  assume "fst (send ajax_request wc) = Raises Timeout \<or>
      (\<exists>resp. fst (send ajax_request wc) = Returns resp \<and> resp_status resp < 400 \<and>
         (resp_text resp = Raises Timeout \<or>
          (\<exists>body. resp_text resp = Returns body \<and>
             str_in ''application/json''
               (case resp_content_type resp of None \<Rightarrow> [] | Some c \<Rightarrow> c) \<and>
             resp_json resp = Raises Timeout)))"
  then show "fst (get_tanks_list wc) = Inl ApiError"
    by (auto simp: get_tanks_list_def Let_def reraise_def split: prod.splits)
qed

text \<open>
  C7. Whenever \<open>get_tanks_list\<close> succeeds, at the first attempt or at the retry after a
  re-login, \<open>_async_update_data\<close> returns exactly the value \<open>resp.json()\<close> produced, and the
  refresh caches that same value: nothing is added, removed or changed.
\<close>

theorem snapshot_published_verbatim:
  "(get_tanks_list w = (Inr d, w') \<longrightarrow>
      async_update_data self w = (Inr d, w') \<and> data (fst (refresh self w)) = Some d \<and>
      (\<exists>resp. fst (send ajax_request w) = Returns resp \<and> resp_json resp = Returns d)) \<and>
   (get_tanks_list wa = (Inl AuthError, w1) \<and>
    login (username self) (password self) w1 = (Inr (), w2) \<and>
    get_tanks_list w2 = (Inr d2, w3) \<longrightarrow>
      async_update_data self wa = (Inr d2, w3) \<and> data (fst (refresh self wa)) = Some d2 \<and>
      (\<exists>resp. fst (send ajax_request w2) = Returns resp \<and> resp_json resp = Returns d2))"
  using get_tanks_list_Inr [of w d w'] get_tanks_list_Inr [of w2 d2 w3]
  by (auto simp: async_update_data_def refresh_def)

text \<open>
  C1, as the code has it. After an \<open>AuthError\<close> of the first fetch and a successful login,
  the fetch is retried once. If the retry fails with anything but \<open>AuthError\<close> the refresh
  raises \<open>UpdateFailed\<close>; if it fails with \<open>AuthError\<close> the refresh raises
  \<open>ConfigEntryAuthFailed\<close>, since the handler of the re-login guards the retry too. Either
  way the refresh ends there: it has made exactly four requests, the fetch, the two of the
  login and the retried fetch.
\<close>

theorem retry_failure_signal:
  assumes "get_tanks_list w = (Inl AuthError, w1)"
    and "login (username self) (password self) w1 = (Inr (), w2)"
    and "get_tanks_list w2 = (Inl e, w3)"
  shows "async_update_data self w =
           (Inl (if e = AuthError then ConfigEntryAuthFailed else UpdateFailed), w3) \<and>
         (\<exists>nonce. sent w3 = sent w @ [ajax_request, Get LOGIN_URL,
            PostForm LOGIN_URL (login_data (username self) (password self) nonce), ajax_request])"
proof
  show "async_update_data self w =
          (Inl (if e = AuthError then ConfigEntryAuthFailed else UpdateFailed), w3)"
    using assms by (simp add: async_update_data_def relogin_handler_def)
  from get_tanks_list_sent [of w] assms(1)
  have s1: "w1 = w\<lparr>sent := sent w @ [ajax_request]\<rparr>" by simp
  from login_ok_sent [OF assms(2)] obtain nonce where
    s2: "w2 = w1\<lparr>sent := sent w1 @ [Get LOGIN_URL,
           PostForm LOGIN_URL (login_data (username self) (password self) nonce)]\<rparr>" by blast
  from get_tanks_list_sent [of w2] assms(3)
  have s3: "w3 = w2\<lparr>sent := sent w2 @ [ajax_request]\<rparr>" by simp
  from s1 s2 s3 show "\<exists>nonce. sent w3 = sent w @ [ajax_request, Get LOGIN_URL,
            PostForm LOGIN_URL (login_data (username self) (password self) nonce), ajax_request]"
    by auto
qed

text \<open>
  C3. If the first fetch raises \<open>AuthError\<close> and the re-login raises \<open>AuthError\<close> as well,
  \<open>_async_update_data\<close> raises \<open>ConfigEntryAuthFailed\<close>, which is not \<open>UpdateFailed\<close>, and
  the refresh leaves the cached snapshot as it was.
\<close>

theorem relogin_rejected_needs_reauth:
  assumes "get_tanks_list w = (Inl AuthError, w1)"
    and "login (username self) (password self) w1 = (Inl AuthError, w2)"
  shows "async_update_data self w = (Inl ConfigEntryAuthFailed, w2) \<and>
         ConfigEntryAuthFailed \<noteq> UpdateFailed \<and>
         data (fst (refresh self w)) = data self \<and>
         last_exception (fst (refresh self w)) = Some ConfigEntryAuthFailed"
  using assms by (simp add: async_update_data_def refresh_def relogin_handler_def)

lemmas page_eval = login_form_def welcome_page_def unauthorized_json_def tanks_json_def

theorem login_classification_witness:
  "login ''user'' ''secret'' (script_world [Returns login_form, Returns login_form]) =
     (Inl AuthError, (script_world [Returns login_form, Returns login_form])
        \<lparr>sent := [Get LOGIN_URL, PostForm LOGIN_URL (login_data ''user'' ''secret'' (Some ''abc123''))]\<rparr>)"
proof -
  let ?w = "script_world [Returns login_form, Returns login_form]"
  let ?w1 = "?w\<lparr>sent := [Get LOGIN_URL]\<rparr>"
  let ?w2 = "?w\<lparr>sent := [Get LOGIN_URL, PostForm LOGIN_URL (login_data ''user'' ''secret'' (Some ''abc123''))]\<rparr>"
  have h1: "fetch_nonce ?w = (Inr (Some ''abc123''), ?w1)"
    by (simp add: fetch_nonce_def world_eval page_eval nonce_abc del: nonce_search.simps)
  have h2: "send (PostForm LOGIN_URL (login_data ''user'' ''secret'' (Some ''abc123''))) ?w1
              = (Returns login_form, ?w2)"
    by (simp add: world_eval)
  have h3: \<open>resp_status login_form = 200 \<and> resp_text login_form =
      Returns ''<input name="ccf_nonce" value="abc123"><input name="user_pass">''\<close>
    by (simp add: page_eval html_page_def)
  have h4: \<open>str_in ''user_pass'' ''<input name="ccf_nonce" value="abc123"><input name="user_pass">''\<close>
    by simp
  from login_classification [OF h1 h2] h3 h4 show ?thesis by simp
qed

lemmas client_eval = get_tanks_list_def login_def fetch_nonce_def check_data_def eq_int_def
  result_not_ok_def reraise_def Let_def world_eval page_eval nonce_abc

theorem nonjson_login_marker_counterexample:
  "\<not> str_in ''application/json'' ''text/html'' \<and>
   \<not> str_in ''user_pass'' ''Login'' \<and>
   \<not> (str_in ''Login'' ''Login'' \<and> str_in ''Smart Oil Gauge'' ''Login'') \<and>
   fst (get_tanks_list (script_world [Returns (html_page 200 ''Login'')])) = Inl AuthError \<and>
   fst (get_tanks_list (script_world [Returns (html_page 200 ''Login'')])) \<noteq> Inl ApiError"
  by (simp add: client_eval)

theorem get_tanks_list_non_json_witness:
  "get_tanks_list (script_world [Returns (html_page 200 ''<html>Bad gateway</html>'')]) =
     (Inl ApiError,
      (script_world [Returns (html_page 200 ''<html>Bad gateway</html>'')])\<lparr>sent := [ajax_request]\<rparr>)"
proof -
  let ?w = "script_world [Returns (html_page 200 ''<html>Bad gateway</html>'')]"
  have h1: "send ajax_request ?w =
      (Returns (html_page 200 ''<html>Bad gateway</html>''), ?w\<lparr>sent := [ajax_request]\<rparr>)"
    by (simp add: world_eval)
  have h2: "resp_status (html_page 200 ''<html>Bad gateway</html>'') < 400"
    by (simp add: html_page_def)
  have h3: "\<not> str_in ''application/json''
      (case resp_content_type (html_page 200 ''<html>Bad gateway</html>'') of
         None \<Rightarrow> [] | Some c \<Rightarrow> c)"
    by (simp add: html_page_def)
  have h4: "resp_text (html_page 200 ''<html>Bad gateway</html>'') =
      Returns ''<html>Bad gateway</html>''"
    by (simp add: html_page_def)
  from get_tanks_list_non_json [OF h1 h2 h3 h4] show ?thesis by simp
qed

theorem timeouts_are_ApiError_witness:
  "fst (fetch_nonce (script_world [Raises Timeout])) = Inl ApiError \<and>
   fst (login ''user'' ''secret'' (script_world [Raises Timeout])) = Inl ApiError \<and>
   fst (login ''user'' ''secret'' (script_world [Returns login_form, Raises Timeout])) = Inl ApiError \<and>
   fst (get_tanks_list (script_world [Raises Timeout])) = Inl ApiError"
proof -
  let ?wb = "script_world [Returns login_form, Raises Timeout]"
  have a: "fst (send (Get LOGIN_URL) (script_world [Raises Timeout])) = Raises Timeout"
    by (simp add: world_eval)
  have b1: "fetch_nonce ?wb = (Inr (Some ''abc123''), ?wb\<lparr>sent := [Get LOGIN_URL]\<rparr>)"
    by (simp add: fetch_nonce_def world_eval page_eval nonce_abc del: nonce_search.simps)
  have b2: "fst (send (PostForm LOGIN_URL (login_data ''user'' ''secret'' (Some ''abc123'')))
      (?wb\<lparr>sent := [Get LOGIN_URL]\<rparr>)) = Raises Timeout"
    by (simp add: world_eval)
  have c: "fst (send ajax_request (script_world [Raises Timeout])) = Raises Timeout"
    by (simp add: world_eval)
  from timeouts_are_ApiError [of "script_world [Raises Timeout]" "''user''" "''secret''" ?wb
      "Some ''abc123''" "?wb\<lparr>sent := [Get LOGIN_URL]\<rparr>" "script_world [Raises Timeout]"]
    a b1 b2 c
  show ?thesis by simp
qed

theorem status_field_unauthorized_witness:
  "resp_status unauthorized_json = 200 \<and>
   get_tanks_list (script_world [Returns unauthorized_json]) =
     (Inl AuthError, (script_world [Returns unauthorized_json])\<lparr>sent := [ajax_request]\<rparr>)"
proof -
  let ?w = "script_world [Returns unauthorized_json]"
  have h1: "send ajax_request ?w = (Returns unauthorized_json, ?w\<lparr>sent := [ajax_request]\<rparr>)"
    by (simp add: world_eval)
  have h2: "resp_json unauthorized_json = Returns (JDict [(''Status'', JInt 401)])"
    by (simp add: page_eval json_page_def)
  have h3: "map_of [(''Status'', JInt 401)] ''Status'' = Some (JInt 401)"
    by simp
  have h4: "eq_int (JInt 401) 401 \<or> eq_int (JInt 401) 403"
    by (simp add: eq_int_def)
  have h5: \<open>resp_status unauthorized_json = 200 \<and>
      str_in ''application/json''
        (case resp_content_type unauthorized_json of None \<Rightarrow> [] | Some c \<Rightarrow> c) \<and>
      resp_text unauthorized_json = Returns ''{"Status":401}''\<close>
    by (simp add: page_eval json_page_def)
  from status_field_unauthorized [OF h1 h2 h3 h4, of \<open>''{"Status":401}''\<close>] h5
  show ?thesis by simp
qed

lemma fetch_unauthorized:
  "get_tanks_list \<lparr>server = scripted (Returns unauthorized_json # rs), sent = []\<rparr> =
     (Inl AuthError, \<lparr>server = scripted (Returns unauthorized_json # rs), sent = [ajax_request]\<rparr>)"
  by (simp add: client_eval)

lemma relogin_welcome:
  "login ''user'' ''secret''
     \<lparr>server = scripted (r # Returns login_form # Returns welcome_page # rs), sent = [q]\<rparr> =
     (Inr (), \<lparr>server = scripted (r # Returns login_form # Returns welcome_page # rs),
        sent = [q, Get LOGIN_URL,
          PostForm LOGIN_URL (login_data ''user'' ''secret'' (Some ''abc123''))]\<rparr>)"
  by (simp add: client_eval del: nonce_search.simps)

theorem snapshot_published_verbatim_witness:
  "async_update_data sample_coordinator (script_world [Returns tanks_json]) =
     (Inr sample_snapshot, (script_world [Returns tanks_json])\<lparr>sent := [ajax_request]\<rparr>) \<and>
   fst (async_update_data sample_coordinator
     (script_world [Returns unauthorized_json, Returns login_form, Returns welcome_page,
        Returns tanks_json])) = Inr sample_snapshot"
proof -
  let ?w = "script_world [Returns tanks_json]"
  let ?s = "scripted [Returns unauthorized_json, Returns login_form, Returns welcome_page,
        Returns tanks_json]"
  let ?p = "PostForm LOGIN_URL (login_data ''user'' ''secret'' (Some ''abc123''))"
  have h1: "get_tanks_list ?w = (Inr sample_snapshot, ?w\<lparr>sent := [ajax_request]\<rparr>)"
    by (simp add: client_eval sample_snapshot_def)
  have h2: "get_tanks_list \<lparr>server = ?s, sent = []\<rparr> =
      (Inl AuthError, \<lparr>server = ?s, sent = [ajax_request]\<rparr>)"
    by (rule fetch_unauthorized)
  have h3: "login (username sample_coordinator) (password sample_coordinator)
      \<lparr>server = ?s, sent = [ajax_request]\<rparr> =
      (Inr (), \<lparr>server = ?s, sent = [ajax_request, Get LOGIN_URL, ?p]\<rparr>)"
    using relogin_welcome [of "Returns unauthorized_json" "[Returns tanks_json]" ajax_request]
    by (simp add: sample_coordinator_def)
  have h4: "get_tanks_list \<lparr>server = ?s, sent = [ajax_request, Get LOGIN_URL, ?p]\<rparr> =
      (Inr sample_snapshot,
       \<lparr>server = ?s, sent = [ajax_request, Get LOGIN_URL, ?p, ajax_request]\<rparr>)"
    by (simp add: client_eval sample_snapshot_def)
  from snapshot_published_verbatim [of ?w sample_snapshot "?w\<lparr>sent := [ajax_request]\<rparr>"
      sample_coordinator "\<lparr>server = ?s, sent = []\<rparr>"
      "\<lparr>server = ?s, sent = [ajax_request]\<rparr>"
      "\<lparr>server = ?s, sent = [ajax_request, Get LOGIN_URL, ?p]\<rparr>" sample_snapshot
      "\<lparr>server = ?s, sent = [ajax_request, Get LOGIN_URL, ?p, ajax_request]\<rparr>"]
    h1 h2 h3 h4
  show ?thesis by (simp add: script_world_def)
qed

theorem retry_auth_failure_counterexample:
  "fst (get_tanks_list (script_world
     [Returns unauthorized_json, Returns login_form, Returns welcome_page,
      Returns unauthorized_json])) = Inl AuthError \<and>
   fst (login ''user'' ''secret'' (snd (get_tanks_list (script_world
     [Returns unauthorized_json, Returns login_form, Returns welcome_page,
      Returns unauthorized_json])))) = Inr () \<and>
   fst (get_tanks_list (snd (login ''user'' ''secret'' (snd (get_tanks_list (script_world
     [Returns unauthorized_json, Returns login_form, Returns welcome_page,
      Returns unauthorized_json])))))) = Inl AuthError \<and>
   fst (async_update_data sample_coordinator (script_world
     [Returns unauthorized_json, Returns login_form, Returns welcome_page,
      Returns unauthorized_json])) = Inl ConfigEntryAuthFailed \<and>
   ConfigEntryAuthFailed \<noteq> UpdateFailed"
proof -
  let ?s = "scripted [Returns unauthorized_json, Returns login_form, Returns welcome_page,
      Returns unauthorized_json]"
  let ?p = "PostForm LOGIN_URL (login_data ''user'' ''secret'' (Some ''abc123''))"
  have h2: "get_tanks_list \<lparr>server = ?s, sent = []\<rparr> =
      (Inl AuthError, \<lparr>server = ?s, sent = [ajax_request]\<rparr>)"
    by (rule fetch_unauthorized)
  have h3: "login ''user'' ''secret'' \<lparr>server = ?s, sent = [ajax_request]\<rparr> =
      (Inr (), \<lparr>server = ?s, sent = [ajax_request, Get LOGIN_URL, ?p]\<rparr>)"
    by (rule relogin_welcome)
  have h4: "get_tanks_list \<lparr>server = ?s, sent = [ajax_request, Get LOGIN_URL, ?p]\<rparr> =
      (Inl AuthError,
       \<lparr>server = ?s, sent = [ajax_request, Get LOGIN_URL, ?p, ajax_request]\<rparr>)"
    by (simp add: client_eval)
  from h2 h3 h4 show ?thesis
    by (simp add: script_world_def async_update_data_def sample_coordinator_def
        relogin_handler_def)
qed

theorem retry_failure_signal_witness:
  "async_update_data sample_coordinator (script_world
     [Returns unauthorized_json, Returns login_form, Returns welcome_page,
      Returns (html_page 503 [])]) =
   (Inl UpdateFailed, (script_world
     [Returns unauthorized_json, Returns login_form, Returns welcome_page,
      Returns (html_page 503 [])])
     \<lparr>sent := [ajax_request, Get LOGIN_URL,
        PostForm LOGIN_URL (login_data ''user'' ''secret'' (Some ''abc123'')), ajax_request]\<rparr>)"
proof -
  let ?s = "scripted [Returns unauthorized_json, Returns login_form, Returns welcome_page,
      Returns (html_page 503 [])]"
  let ?p = "PostForm LOGIN_URL (login_data ''user'' ''secret'' (Some ''abc123''))"
  have h2: "get_tanks_list \<lparr>server = ?s, sent = []\<rparr> =
      (Inl AuthError, \<lparr>server = ?s, sent = [ajax_request]\<rparr>)"
    by (rule fetch_unauthorized)
  have h3: "login (username sample_coordinator) (password sample_coordinator)
      \<lparr>server = ?s, sent = [ajax_request]\<rparr> =
      (Inr (), \<lparr>server = ?s, sent = [ajax_request, Get LOGIN_URL, ?p]\<rparr>)"
    using relogin_welcome [of "Returns unauthorized_json" "[Returns (html_page 503 [])]" ajax_request]
    by (simp add: sample_coordinator_def)
  have h4: "get_tanks_list \<lparr>server = ?s, sent = [ajax_request, Get LOGIN_URL, ?p]\<rparr> =
      (Inl ApiError,
       \<lparr>server = ?s, sent = [ajax_request, Get LOGIN_URL, ?p, ajax_request]\<rparr>)"
    by (simp add: client_eval)
  from retry_failure_signal [OF h2 h3 h4] show ?thesis
    by (simp add: script_world_def)
qed

theorem relogin_rejected_needs_reauth_witness:
  "fst (async_update_data sample_coordinator (script_world
     [Returns unauthorized_json, Returns login_form, Returns login_form])) =
     Inl ConfigEntryAuthFailed \<and>
   data (fst (refresh sample_coordinator (script_world
     [Returns unauthorized_json, Returns login_form, Returns login_form]))) =
     Some sample_snapshot"
proof -
  let ?s = "scripted [Returns unauthorized_json, Returns login_form, Returns login_form]"
  let ?p = "PostForm LOGIN_URL (login_data ''user'' ''secret'' (Some ''abc123''))"
  have h2: "get_tanks_list \<lparr>server = ?s, sent = []\<rparr> =
      (Inl AuthError, \<lparr>server = ?s, sent = [ajax_request]\<rparr>)"
    by (rule fetch_unauthorized)
  have h3: "login (username sample_coordinator) (password sample_coordinator)
      \<lparr>server = ?s, sent = [ajax_request]\<rparr> =
      (Inl AuthError, \<lparr>server = ?s, sent = [ajax_request, Get LOGIN_URL, ?p]\<rparr>)"
    by (simp add: client_eval sample_coordinator_def del: nonce_search.simps)
  from relogin_rejected_needs_reauth [OF h2 h3] show ?thesis
    by (simp add: script_world_def sample_coordinator_def)
qed

(*THMS_END*)

end
